theory Spec2Isabelle
  imports Main "HOL-Library.Multiset"
begin

section \<open>Python values, exceptions and text helpers\<close>

text \<open>
  The program is \<^verbatim>\<open>src/code_quality.py\<close>. Python strings are modelled as
  \<^typ>\<open>string\<close> (ASCII text), Python's unbounded integers as \<^typ>\<open>int\<close>.
  A scalar value decoded from JSON or stored in a result dictionary is a \<open>pyval\<close>:
  \<^verbatim>\<open>None\<close>, an integer or a string.
\<close>

datatype pyval = PNone | PInt int | PStr string

text \<open>
  Exceptions are values. \<open>Exception\<close> is what the source raises itself with
  \<^verbatim>\<open>raise Exception(...)\<close>; the other constructors are the exceptions the
  interpreter and the libraries raise (\<^verbatim>\<open>re.error\<close>, \<^verbatim>\<open>ValueError\<close>,
  \<^verbatim>\<open>TypeError\<close>, \<^verbatim>\<open>AttributeError\<close>, \<^verbatim>\<open>KeyError\<close>, an exception of the
  HTTP transport, of the file system, or of the parser other than \<^verbatim>\<open>SyntaxError\<close>).
  Each carries the text \<^verbatim>\<open>str(e)\<close> gives; for the exceptions of the interpreter
  the text is given in the model's own words.
\<close>

datatype exc =
    Exception string
  | ReError string
  | ValueError string
  | TypeError string
  | AttributeError string
  | KeyError string
  | TransportError string
  | OSError string
  | ParserError string

fun str_exc :: "exc \<Rightarrow> string" where
  "str_exc (Exception m) = m"
| "str_exc (ReError m) = m"
| "str_exc (ValueError m) = m"
| "str_exc (TypeError m) = m"
| "str_exc (AttributeError m) = m"
| "str_exc (KeyError m) = m"
| "str_exc (TransportError m) = m"
| "str_exc (OSError m) = m"
| "str_exc (ParserError m) = m"

subsection \<open>Decimal text of an integer: \<^verbatim>\<open>str(n)\<close> and \<^verbatim>\<open>f"{n}"\<close>\<close>

definition digit_char :: "nat \<Rightarrow> char" where
  "digit_char d = ''0123456789'' ! (d mod 10)"

fun dec_nat :: "nat \<Rightarrow> string" where
  "dec_nat n = (if n < 10 then [digit_char n] else dec_nat (n div 10) @ [digit_char (n mod 10)])"

declare dec_nat.simps [simp del]

definition str_int :: "int \<Rightarrow> string" where
  "str_int i = (if i < 0 then CHR ''-'' # dec_nat (nat (- i)) else dec_nat (nat i))"

subsection \<open>\<^verbatim>\<open>int(x)\<close>\<close>

definition is_space :: "char \<Rightarrow> bool" where
  "is_space c = (c \<in> set [CHR '' '', CHR 0x09, CHR 0x0A, CHR 0x0B, CHR 0x0C, CHR 0x0D])"

definition strip :: "string \<Rightarrow> string" where
  "strip s = rev (dropWhile is_space (rev (dropWhile is_space s)))"

definition digit_val :: "char \<Rightarrow> nat option" where
  "digit_val c = (let n = (of_char c :: nat) in if 48 \<le> n \<and> n \<le> 57 then Some (n - 48) else None)"

text \<open>
  The digits after the first one; a single underscore may stand between two digits.
\<close>

fun digits_value :: "nat \<Rightarrow> string \<Rightarrow> nat option" where
  "digits_value acc [] = Some acc"
| "digits_value acc [c] =
     (case digit_val c of None \<Rightarrow> None | Some d \<Rightarrow> Some (10 * acc + d))"
| "digits_value acc (c # d # cs) =
     (if c = CHR ''_''
      then (case digit_val d of None \<Rightarrow> None | Some v \<Rightarrow> digits_value (10 * acc + v) cs)
      else (case digit_val c of None \<Rightarrow> None | Some v \<Rightarrow> digits_value (10 * acc + v) (d # cs)))"

definition unsigned_literal :: "string \<Rightarrow> nat option" where
  "unsigned_literal u =
     (case u of [] \<Rightarrow> None
      | c # r \<Rightarrow> (case digit_val c of None \<Rightarrow> None | Some d \<Rightarrow> digits_value d r))"

definition int_literal :: "string \<Rightarrow> int option" where
  "int_literal s =
     (case strip s of
        [] \<Rightarrow> None
      | c # r \<Rightarrow>
          if c = CHR ''-'' then map_option (\<lambda>n. - int n) (unsigned_literal r)
          else if c = CHR ''+'' then map_option int (unsigned_literal r)
          else map_option int (unsigned_literal (c # r)))"

fun py_int :: "pyval \<Rightarrow> exc + int" where
  "py_int (PInt i) = Inr i"
| "py_int (PStr s) =
     (case int_literal s of
        None \<Rightarrow> Inl (ValueError (''invalid literal for int() with base 10: '' @ s))
      | Some i \<Rightarrow> Inr i)"
| "py_int PNone = Inl (TypeError ''int() argument must be a string or a number'')"

subsection \<open>\<^verbatim>\<open>sep.join(xs)\<close> and \<^verbatim>\<open>dict.get(key, default)\<close>\<close>

fun join :: "string \<Rightarrow> string list \<Rightarrow> string" where
  "join sep [] = []"
| "join sep [x] = x"
| "join sep (x # y # ys) = x @ sep @ join sep (y # ys)"

type_synonym pydict = "string \<rightharpoonup> pyval"

definition dict_get :: "pydict \<Rightarrow> string \<Rightarrow> pyval \<Rightarrow> pyval" where
  "dict_get d k dflt = (case d k of None \<Rightarrow> dflt | Some v \<Rightarrow> v)"

text \<open>
  Floating point is not modelled: the operations the program applies to floats are
  parameters, over any type \<open>'f\<close> of floats. They are \<^verbatim>\<open>float(x)\<close>, the
  comparison \<^verbatim>\<open>x > 10\<close>, the format \<^verbatim>\<open>f"{x:.1f}"\<close>, the expression
  \<^verbatim>\<open>n / m * 100\<close> on two integers and the comparison \<^verbatim>\<open>x < k\<close> with an
  integer.
\<close>

record 'f float_ops =
  py_float :: "pyval \<Rightarrow> exc + 'f"
  gt10 :: "'f \<Rightarrow> bool"
  fmt1f :: "'f \<Rightarrow> string"
  percentage :: "int \<Rightarrow> int \<Rightarrow> 'f"
  less_than :: "'f \<Rightarrow> int \<Rightarrow> bool"

text \<open>
  An instance for concrete runs, with whole numbers in place of floats.
\<close>

definition decimal_float_ops :: "int float_ops" where
  "decimal_float_ops =
     \<lparr> py_float = py_int, gt10 = (\<lambda>x. x > 10), fmt1f = (\<lambda>x. str_int x @ ''.0''),
       percentage = (\<lambda>n m. n * 100 div m), less_than = (\<lambda>x k. x < k) \<rparr>"

section \<open>SonarCloudAnalyzer: the summary\<close>

text \<open>
  \<^verbatim>\<open>SonarCloudAnalyzer._generate_summary(issues, metrics)\<close>. The list
  \<^verbatim>\<open>quality_issues\<close> is built by four appends in a row.
\<close>

definition bugs_phrase :: "int \<Rightarrow> string" where
  "bugs_phrase bugs = str_int bugs @ '' potential bug'' @ (if bugs > 1 then ''s'' else '''')"

definition vulnerabilities_phrase :: "int \<Rightarrow> string" where
  "vulnerabilities_phrase vulnerabilities =
     str_int vulnerabilities @ '' securit'' @ (if vulnerabilities > 1 then ''ies'' else ''y'')
       @ '' '' @ (if vulnerabilities > 1 then ''issues'' else ''issue'')"

definition code_smells_phrase :: "int \<Rightarrow> string" where
  "code_smells_phrase code_smells =
     str_int code_smells @ '' code smell'' @ (if code_smells > 1 then ''s'' else '''')"

definition quality_issues :: "'f float_ops \<Rightarrow> int \<Rightarrow> int \<Rightarrow> int \<Rightarrow> 'f \<Rightarrow> string list" where
  "quality_issues F bugs vulnerabilities code_smells duplication =
     (let q = [];
          q = (if bugs > 0 then q @ [bugs_phrase bugs] else q);
          q = (if vulnerabilities > 0 then q @ [vulnerabilities_phrase vulnerabilities] else q);
          q = (if code_smells > 0 then q @ [code_smells_phrase code_smells] else q);
          q = (if gt10 F duplication then q @ [fmt1f F duplication @ ''% code duplication''] else q)
      in q)"

definition generate_summary :: "'f float_ops \<Rightarrow> 'a list \<Rightarrow> pydict \<Rightarrow> exc + string" where
  "generate_summary F issues metrics =
     (case py_int (dict_get metrics ''ncloc'' (PInt 0)) of Inl e \<Rightarrow> Inl e | Inr loc \<Rightarrow>
      if loc = 0 then Inr ''No code detected for analysis.'' else
     (case py_int (dict_get metrics ''bugs'' (PInt 0)) of Inl e \<Rightarrow> Inl e | Inr bugs \<Rightarrow>
     (case py_int (dict_get metrics ''vulnerabilities'' (PInt 0)) of Inl e \<Rightarrow> Inl e
      | Inr vulnerabilities \<Rightarrow>
     (case py_int (dict_get metrics ''code_smells'' (PInt 0)) of Inl e \<Rightarrow> Inl e
      | Inr code_smells \<Rightarrow>
     (case py_float F (dict_get metrics ''duplicated_lines_density'' (PInt 0)) of Inl e \<Rightarrow> Inl e
      | Inr duplication \<Rightarrow>
     (let q = quality_issues F bugs vulnerabilities code_smells duplication in
      if q = [] then
        Inr (''No significant issues found in '' @ str_int loc @ '' lines of code. Good job!'')
      else
        Inr (''Found '' @ join '', '' q @ '' in '' @ str_int loc @ '' lines of code.'')))))))"

section \<open>Findings and results\<close>

text \<open>
  A finding is the dictionary \<^verbatim>\<open>{"line", "message", "severity", "type"}\<close>, with
  the key \<^verbatim>\<open>"rule"\<close> only in the findings of the remote analysis
  (\<open>rule = None\<close>: the key is absent).
\<close>

record finding =
  line :: pyval
  message :: pyval
  severity :: string
  type :: string
  rule :: "pyval option"

text \<open>
  What an entry point returns: \<^verbatim>\<open>{"issues", "metrics", "summary"}\<close>, or
  \<^verbatim>\<open>{"error", "message"}\<close> (\<^verbatim>\<open>{"error"}\<close> alone where the source gives no message).
\<close>

datatype 'm analysis_result =
    Success "finding list" 'm string
  | Error string "string option"

fun success_shaped :: "'m analysis_result \<Rightarrow> bool" where
  "success_shaped (Success i m s) = True"
| "success_shaped (Error e m) = False"


section \<open>SonarCloudAnalyzer: normalisation of the remote results\<close>

definition lower_char :: "char \<Rightarrow> char" where
  "lower_char c =
     (let n = (of_char c :: nat) in if 65 \<le> n \<and> n \<le> 90 then char_of (n + 32) else c)"

definition lower :: "string \<Rightarrow> string" where
  "lower s = map lower_char s"

text \<open>\<^verbatim>\<open>x.lower()\<close>: only a string has the method.\<close>

fun py_lower :: "pyval \<Rightarrow> exc + string" where
  "py_lower (PStr s) = Inr (lower s)"
| "py_lower (PInt i) = Inl (AttributeError ''int object has no attribute lower'')"
| "py_lower PNone = Inl (AttributeError ''NoneType object has no attribute lower'')"

text \<open>\<^verbatim>\<open>f"{x}"\<close>\<close>

fun py_format :: "pyval \<Rightarrow> string" where
  "py_format (PStr s) = s"
| "py_format (PInt i) = str_int i"
| "py_format PNone = ''None''"

definition format_issue :: "pydict \<Rightarrow> exc + finding" where
  "format_issue issue =
     (case py_lower (dict_get issue ''severity'' (PStr [])) of Inl e \<Rightarrow> Inl e | Inr sev \<Rightarrow>
     (case py_lower (dict_get issue ''type'' (PStr ''CODE_SMELL'')) of Inl e \<Rightarrow> Inl e | Inr ty \<Rightarrow>
      Inr \<lparr> line = dict_get issue ''line'' (PInt 0),
            message = dict_get issue ''message'' (PStr []),
            severity = sev,
            type = ty,
            rule = Some (dict_get issue ''rule'' (PStr [])) \<rparr>))"

definition format_hotspot :: "pydict \<Rightarrow> finding" where
  "format_hotspot hotspot =
     \<lparr> line = dict_get hotspot ''line'' (PInt 0),
       message = PStr (''Security hotspot: '' @ py_format (dict_get hotspot ''message'' (PStr []))),
       severity = ''warning'',
       type = ''security'',
       rule = Some (dict_get hotspot ''ruleKey'' (PStr [])) \<rparr>"

text \<open>The two loops of \<^verbatim>\<open>_format_results\<close>, appending to \<^verbatim>\<open>formatted_issues\<close>.\<close>

fun process_issues :: "finding list \<Rightarrow> pydict list \<Rightarrow> exc + finding list" where
  "process_issues formatted_issues [] = Inr formatted_issues"
| "process_issues formatted_issues (issue # issues) =
     (case format_issue issue of
        Inl e \<Rightarrow> Inl e
      | Inr f \<Rightarrow> process_issues (formatted_issues @ [f]) issues)"

fun process_hotspots :: "finding list \<Rightarrow> pydict list \<Rightarrow> finding list" where
  "process_hotspots formatted_issues [] = formatted_issues"
| "process_hotspots formatted_issues (hotspot # hotspots) =
     process_hotspots (formatted_issues @ [format_hotspot hotspot]) hotspots"

record 'f sonar_metrics =
  lines_of_code :: int
  complexity :: int
  bugs :: int
  vulnerabilities :: int
  code_smells :: int
  security_hotspots :: int
  duplicate_lines_percentage :: 'f
  coverage :: "'f option"

definition format_metrics :: "'f float_ops \<Rightarrow> pydict \<Rightarrow> exc + 'f sonar_metrics" where
  "format_metrics F metrics =
     (case py_int (dict_get metrics ''ncloc'' (PInt 0)) of Inl e \<Rightarrow> Inl e | Inr loc \<Rightarrow>
     (case py_int (dict_get metrics ''complexity'' (PInt 0)) of Inl e \<Rightarrow> Inl e | Inr cx \<Rightarrow>
     (case py_int (dict_get metrics ''bugs'' (PInt 0)) of Inl e \<Rightarrow> Inl e | Inr bg \<Rightarrow>
     (case py_int (dict_get metrics ''vulnerabilities'' (PInt 0)) of Inl e \<Rightarrow> Inl e | Inr vl \<Rightarrow>
     (case py_int (dict_get metrics ''code_smells'' (PInt 0)) of Inl e \<Rightarrow> Inl e | Inr cs \<Rightarrow>
     (case py_int (dict_get metrics ''security_hotspots'' (PInt 0)) of Inl e \<Rightarrow> Inl e | Inr sh \<Rightarrow>
     (case py_float F (dict_get metrics ''duplicated_lines_density'' (PInt 0)) of Inl e \<Rightarrow> Inl e
      | Inr dup \<Rightarrow>
     (case (if metrics ''coverage'' \<noteq> None
            then map_sum id Some (py_float F (dict_get metrics ''coverage'' (PInt 0)))
            else Inr None) of Inl e \<Rightarrow> Inl e
      | Inr cov \<Rightarrow>
      Inr \<lparr> lines_of_code = loc, complexity = cx, bugs = bg, vulnerabilities = vl,
            code_smells = cs, security_hotspots = sh,
            duplicate_lines_percentage = dup, coverage = cov \<rparr>))))))))"

definition format_results ::
  "'f float_ops \<Rightarrow> pydict list \<Rightarrow> pydict list \<Rightarrow> pydict \<Rightarrow> exc + 'f sonar_metrics analysis_result"
where
  "format_results F issues hotspots metrics =
     (case process_issues [] issues of Inl e \<Rightarrow> Inl e | Inr formatted_issues \<Rightarrow>
     (let formatted_issues = process_hotspots formatted_issues hotspots in
     (case generate_summary F formatted_issues metrics of Inl e \<Rightarrow> Inl e | Inr summary \<Rightarrow>
     (case format_metrics F metrics of Inl e \<Rightarrow> Inl e | Inr formatted_metrics \<Rightarrow>
      Inr (Success formatted_issues formatted_metrics summary)))))"



section \<open>SonarCloudAnalyzer: the remote calls\<close>

text \<open>
  The object itself: \<^verbatim>\<open>self.token\<close> and \<^verbatim>\<open>self.organization\<close>
  (\<^verbatim>\<open>organization or "default-organization"\<close> in the constructor).
\<close>

record sonar =
  token :: string
  organization :: string

definition sonar_init :: "string \<Rightarrow> string option \<Rightarrow> sonar" where
  "sonar_init tok org =
     \<lparr> token = tok,
       organization = (case org of None \<Rightarrow> ''default-organization''
                       | Some s \<Rightarrow> if s = [] then ''default-organization'' else s) \<rparr>"

definition language_map :: "(string \<times> string) list" where
  "language_map =
     [(''py'', ''python''), (''js'', ''js''), (''ts'', ''ts''), (''jsx'', ''js''),
      (''tsx'', ''ts''), (''java'', ''java''), (''c'', ''c''), (''cpp'', ''cpp''),
      (''cs'', ''cs''), (''go'', ''go''), (''php'', ''php''), (''ruby'', ''ruby''),
      (''scala'', ''scala''), (''kt'', ''kotlin''), (''html'', ''web''), (''css'', ''web''),
      (''xml'', ''xml''), (''json'', ''json'')]"

text \<open>
  \<^verbatim>\<open>os.path.splitext(filename)[1].lstrip('.')\<close>: the extension starts at the last dot
  of the last path component, unless only dots stand before it there.
\<close>

definition splitext_ext :: "string \<Rightarrow> string" where
  "splitext_ext p =
     (let base = rev (takeWhile (\<lambda>c. c \<noteq> CHR ''/'') (rev p));
          ext = rev (takeWhile (\<lambda>c. c \<noteq> CHR ''.'') (rev base));
          stem = take (length base - length ext - 1) base
      in if CHR ''.'' \<in> set base \<and> list_ex (\<lambda>c. c \<noteq> CHR ''.'') stem
         then CHR ''.'' # ext else [])"

definition lstrip_dots :: "string \<Rightarrow> string" where
  "lstrip_dots s = dropWhile (\<lambda>c. c = CHR ''.'') s"

text \<open>
  One constructor per endpoint of the service, with the parameters the program sends
  (every request also carries \<^verbatim>\<open>auth=self.auth\<close>).
\<close>

datatype request =
    ProjectsCreate string string string string
  | SourceIndex string string string string string
  | AnalysisSubmit string string
  | IssuesSearch string nat
  | HotspotsSearch string nat
  | MeasuresComponent string string
  | ProjectsDelete string

text \<open>
  What \<^verbatim>\<open>response.json()\<close> decodes to, as far as the program reads it: the lists
  under the keys \<^verbatim>\<open>"issues"\<close>, \<^verbatim>\<open>"hotspots"\<close> and \<^verbatim>\<open>"component"."measures"\<close>
  (\<open>None\<close>: the key is absent). In a response, \<open>json\<close> is \<open>Inl\<close> when the
  body cannot be decoded, or decodes to a value the program cannot read with \<^verbatim>\<open>.get\<close>.
\<close>

record document =
  doc_issues :: "pydict list option"
  doc_hotspots :: "pydict list option"
  doc_measures :: "pydict list option"

record response =
  status_code :: int
  rtext :: string
  json :: "exc + document"

text \<open>
  The world outside the program: the random project suffix, the HTTP transport (it raises
  or answers), the temporary file (creating it, writing it and reading it back may fail;
  what is read back is what was written) and base64.
\<close>

record world =
  uuid4_hex :: string
  send :: "request \<Rightarrow> exc + response"
  write_file :: "string \<Rightarrow> string \<Rightarrow> exc option"
  b64encode :: "string \<Rightarrow> string"

text \<open>
  A step either raises or returns, and extends the list of the requests sent so far.
\<close>

type_synonym 'a io = "request list \<Rightarrow> (exc + 'a) \<times> request list"

definition return_io :: "'a \<Rightarrow> 'a io" where
  "return_io x = (\<lambda>t. (Inr x, t))"

definition raise_io :: "exc \<Rightarrow> 'a io" where
  "raise_io e = (\<lambda>t. (Inl e, t))"

definition bind_io :: "'a io \<Rightarrow> ('a \<Rightarrow> 'b io) \<Rightarrow> 'b io" where
  "bind_io m f = (\<lambda>t. case m t of (Inl e, t') \<Rightarrow> (Inl e, t') | (Inr x, t') \<Rightarrow> f x t')"

definition lift_io :: "exc + 'a \<Rightarrow> 'a io" where
  "lift_io r = (\<lambda>t. (r, t))"

definition http :: "world \<Rightarrow> request \<Rightarrow> response io" where
  "http w r = (\<lambda>t. (send w r, t @ [r]))"

definition create_project :: "world \<Rightarrow> sonar \<Rightarrow> string \<Rightarrow> unit io" where
  "create_project w self project_key =
     bind_io (http w (ProjectsCreate project_key project_key (organization self) ''private''))
       (\<lambda>response.
          if status_code response \<notin> {200, 201}
          then raise_io (Exception (''Failed to create project: '' @ rtext response))
          else return_io ())"

definition run_scanner :: "world \<Rightarrow> sonar \<Rightarrow> string \<Rightarrow> string \<Rightarrow> string \<Rightarrow> unit io" where
  "run_scanner w self content project_key filename =
     (let extension = lstrip_dots (splitext_ext filename);
          language = (case map_of language_map extension of None \<Rightarrow> ''unknown'' | Some l \<Rightarrow> l)
      in bind_io (http w (SourceIndex (organization self) project_key filename language
                            (b64encode w content)))
           (\<lambda>response.
              if status_code response \<notin> {200, 201}
              then raise_io (Exception (''Failed to run analysis: '' @ rtext response))
              else bind_io (http w (AnalysisSubmit project_key (organization self)))
                (\<lambda>response.
                   if status_code response \<notin> {200, 201, 202}
                   then raise_io (Exception (''Failed to submit analysis: '' @ rtext response))
                   else return_io ())))"

definition get_issues :: "world \<Rightarrow> sonar \<Rightarrow> string \<Rightarrow> pydict list io" where
  "get_issues w self project_key =
     bind_io (http w (IssuesSearch project_key 100))
       (\<lambda>response.
          if status_code response = 200
          then (case json response of
                  Inl e \<Rightarrow> raise_io e
                | Inr doc \<Rightarrow> return_io (case doc_issues doc of None \<Rightarrow> [] | Some l \<Rightarrow> l))
          else raise_io (Exception (''Failed to get issues: '' @ rtext response)))"

definition get_security_hotspots :: "world \<Rightarrow> sonar \<Rightarrow> string \<Rightarrow> pydict list io" where
  "get_security_hotspots w self project_key =
     bind_io (http w (HotspotsSearch project_key 100))
       (\<lambda>response.
          if status_code response = 200
          then (case json response of
                  Inl e \<Rightarrow> raise_io e
                | Inr doc \<Rightarrow> return_io (case doc_hotspots doc of None \<Rightarrow> [] | Some l \<Rightarrow> l))
          else return_io [])"

text \<open>
  \<^verbatim>\<open>{m["metric"]: m["value"] for m in measures}\<close>; a later measure of the same name
  overrides an earlier one. A metric name that is not a string is a key no later lookup
  reads, and is left out of the map.
\<close>

fun measures_dict :: "pydict \<Rightarrow> pydict list \<Rightarrow> exc + pydict" where
  "measures_dict acc [] = Inr acc"
| "measures_dict acc (m # ms) =
     (case m ''metric'' of
        None \<Rightarrow> Inl (KeyError ''metric'')
      | Some k \<Rightarrow>
          (case m ''value'' of
             None \<Rightarrow> Inl (KeyError ''value'')
           | Some v \<Rightarrow>
               measures_dict (case k of PStr name \<Rightarrow> acc(name \<mapsto> v) | _ \<Rightarrow> acc) ms))"

definition metric_keys :: string where
  "metric_keys = ''ncloc,complexity,bugs,vulnerabilities,code_smells,security_hotspots,duplicated_lines_density,coverage''"

definition get_metrics :: "world \<Rightarrow> sonar \<Rightarrow> string \<Rightarrow> pydict io" where
  "get_metrics w self project_key =
     bind_io (http w (MeasuresComponent project_key metric_keys))
       (\<lambda>response.
          if status_code response = 200
          then (case json response of
                  Inl e \<Rightarrow> raise_io e
                | Inr doc \<Rightarrow>
                    lift_io (measures_dict Map.empty
                               (case doc_measures doc of None \<Rightarrow> [] | Some l \<Rightarrow> l)))
          else return_io Map.empty)"

definition delete_project :: "world \<Rightarrow> sonar \<Rightarrow> string \<Rightarrow> unit io" where
  "delete_project w self project_key =
     bind_io (http w (ProjectsDelete project_key)) (\<lambda>response. return_io ())"

text \<open>
  \<^verbatim>\<open>SonarCloudAnalyzer.analyze_code\<close>: the \<^verbatim>\<open>try\<close> body, and the handler
  \<^verbatim>\<open>except Exception as e\<close> that turns whatever was raised into the error result.
  The second component is the list of requests the call has sent, in order.
\<close>

definition fresh_project_key :: "world \<Rightarrow> string" where
  "fresh_project_key w = ''temp-analysis-'' @ take 8 (uuid4_hex w)"

definition sonar_try_body ::
  "'f float_ops \<Rightarrow> world \<Rightarrow> sonar \<Rightarrow> string \<Rightarrow> string \<Rightarrow> 'f sonar_metrics analysis_result io"
where
  "sonar_try_body F w self code filename =
     (let project_key = fresh_project_key w in
      bind_io (create_project w self project_key) (\<lambda>u.
      bind_io (lift_io (case write_file w filename code of Some e \<Rightarrow> Inl e | None \<Rightarrow> Inr ())) (\<lambda>u.
      bind_io (run_scanner w self code project_key filename) (\<lambda>u.
      bind_io (get_issues w self project_key) (\<lambda>issues.
      bind_io (get_security_hotspots w self project_key) (\<lambda>hotspots.
      bind_io (get_metrics w self project_key) (\<lambda>metrics.
      bind_io (delete_project w self project_key) (\<lambda>u.
      lift_io (format_results F issues hotspots metrics)))))))))"

definition sonar_analyze_code ::
  "'f float_ops \<Rightarrow> world \<Rightarrow> sonar \<Rightarrow> string \<Rightarrow> string
     \<Rightarrow> 'f sonar_metrics analysis_result \<times> request list"
where
  "sonar_analyze_code F w self code filename =
     (case sonar_try_body F w self code filename [] of
        (Inr result, t) \<Rightarrow> (result, t)
      | (Inl e, t) \<Rightarrow> (Error ''SonarCloud analysis failed'' (Some (str_exc e)), t))"

text \<open>
  The requests of the protocol for one call, and what it means that the source was
  submitted: the project was created, the file written, the source indexed and the
  analysis triggered, each answered with a status the program accepts.
\<close>

definition language_of :: "string \<Rightarrow> string" where
  "language_of filename =
     (case map_of language_map (lstrip_dots (splitext_ext filename)) of
        None \<Rightarrow> ''unknown'' | Some l \<Rightarrow> l)"

definition create_request :: "world \<Rightarrow> sonar \<Rightarrow> request" where
  "create_request w self =
     ProjectsCreate (fresh_project_key w) (fresh_project_key w) (organization self) ''private''"

definition index_request :: "world \<Rightarrow> sonar \<Rightarrow> string \<Rightarrow> string \<Rightarrow> request" where
  "index_request w self code filename =
     SourceIndex (organization self) (fresh_project_key w) filename (language_of filename)
       (b64encode w code)"

definition submit_request :: "world \<Rightarrow> sonar \<Rightarrow> request" where
  "submit_request w self = AnalysisSubmit (fresh_project_key w) (organization self)"

definition accepted :: "world \<Rightarrow> request \<Rightarrow> int list \<Rightarrow> bool" where
  "accepted w rq codes =
     (case send w rq of Inl e \<Rightarrow> False | Inr r \<Rightarrow> status_code r \<in> set codes)"

definition submitted :: "world \<Rightarrow> sonar \<Rightarrow> string \<Rightarrow> string \<Rightarrow> bool" where
  "submitted w self code filename =
     (accepted w (create_request w self) [200, 201]
      \<and> write_file w filename code = None
      \<and> accepted w (index_request w self code filename) [200, 201]
      \<and> accepted w (submit_request w self) [200, 201, 202])"

definition issues_request :: "world \<Rightarrow> request" where
  "issues_request w = IssuesSearch (fresh_project_key w) 100"

definition hotspots_request :: "world \<Rightarrow> request" where
  "hotspots_request w = HotspotsSearch (fresh_project_key w) 100"

definition metrics_request :: "world \<Rightarrow> request" where
  "metrics_request w = MeasuresComponent (fresh_project_key w) metric_keys"

definition delete_request :: "world \<Rightarrow> request" where
  "delete_request w = ProjectsDelete (fresh_project_key w)"

text \<open>
  What the three fetches make of an answer: the issues of a document, and the tolerant
  reading of the hotspots and of the metrics (any status but 200 gives the empty list,
  the empty map).
\<close>

definition issues_in :: "document \<Rightarrow> pydict list" where
  "issues_in doc = (case doc_issues doc of None \<Rightarrow> [] | Some l \<Rightarrow> l)"

definition fetched_hotspots :: "response \<Rightarrow> pydict list \<Rightarrow> bool" where
  "fetched_hotspots r hs =
     (if status_code r = 200
      then (case json r of Inl e \<Rightarrow> False
            | Inr doc \<Rightarrow> hs = (case doc_hotspots doc of None \<Rightarrow> [] | Some l \<Rightarrow> l))
      else hs = [])"

definition fetched_metrics :: "response \<Rightarrow> pydict \<Rightarrow> bool" where
  "fetched_metrics r ms =
     (if status_code r = 200
      then (case json r of Inl e \<Rightarrow> False
            | Inr doc \<Rightarrow>
                measures_dict Map.empty (case doc_measures doc of None \<Rightarrow> [] | Some l \<Rightarrow> l)
                  = Inr ms)
      else ms = Map.empty)"

text \<open>The rest of the \<^verbatim>\<open>try\<close> body, from the first fetch on.\<close>

definition fetch_results ::
  "'f float_ops \<Rightarrow> world \<Rightarrow> sonar \<Rightarrow> 'f sonar_metrics analysis_result io"
where
  "fetch_results F w self =
      bind_io (get_issues w self (fresh_project_key w)) (\<lambda>issues.
      bind_io (get_security_hotspots w self (fresh_project_key w)) (\<lambda>hotspots.
      bind_io (get_metrics w self (fresh_project_key w)) (\<lambda>metrics.
      bind_io (delete_project w self (fresh_project_key w)) (\<lambda>u.
      lift_io (format_results F issues hotspots metrics)))))"




section \<open>Example services\<close>

text \<open>
  A service for concrete runs: it holds lists of issues and of hotspots and answers a
  search with the first page of the size asked for, and every other request with status
  200 and an empty document. \<open>failing\<close> makes the selected endpoints answer with
  status 500 instead.
\<close>

definition empty_document :: document where
  "empty_document = \<lparr> doc_issues = None, doc_hotspots = None, doc_measures = None \<rparr>"

definition json_answer :: "document \<Rightarrow> response" where
  "json_answer doc = \<lparr> status_code = 200, rtext = ''{}'', json = Inr doc \<rparr>"

definition error_answer :: response where
  "error_answer =
     \<lparr> status_code = 500, rtext = ''internal error'', json = Inl (ValueError ''Expecting value'') \<rparr>"

fun paged_service :: "pydict list \<Rightarrow> pydict list \<Rightarrow> request \<Rightarrow> exc + response" where
  "paged_service all_issues all_hotspots (IssuesSearch k ps) =
     Inr (json_answer (empty_document \<lparr> doc_issues := Some (take ps all_issues) \<rparr>))"
| "paged_service all_issues all_hotspots (HotspotsSearch k ps) =
     Inr (json_answer (empty_document \<lparr> doc_hotspots := Some (take ps all_hotspots) \<rparr>))"
| "paged_service all_issues all_hotspots rq = Inr (json_answer empty_document)"

definition failing ::
  "(request \<Rightarrow> bool) \<Rightarrow> (request \<Rightarrow> exc + response) \<Rightarrow> request \<Rightarrow> exc + response"
where
  "failing broken service rq = (if broken rq then Inr error_answer else service rq)"

fun is_source_index :: "request \<Rightarrow> bool" where
  "is_source_index (SourceIndex org k path lang content) = True"
| "is_source_index rq = False"

fun is_hotspots_search :: "request \<Rightarrow> bool" where
  "is_hotspots_search (HotspotsSearch k ps) = True"
| "is_hotspots_search rq = False"

definition example_world :: "(request \<Rightarrow> exc + response) \<Rightarrow> world" where
  "example_world service =
     \<lparr> uuid4_hex = ''0123456789abcdef0123456789abcdef'',
       send = service,
       write_file = (\<lambda>filename code. None),
       b64encode = (\<lambda>content. content) \<rparr>"

definition example_self :: sonar where
  "example_self = sonar_init ''token'' None"

definition example_issue :: pydict where
  "example_issue = [''severity'' \<mapsto> PStr ''MAJOR'', ''type'' \<mapsto> PStr ''BUG'', ''line'' \<mapsto> PInt 3]"




section \<open>CodeQualityAnalyzer: the structural checker\<close>

text \<open>
  The syntax tree of \<^verbatim>\<open>ast.parse\<close>, as far as the checker looks at it. A
  \<^verbatim>\<open>FunctionDef\<close> node carries its name, its line, the names in
  \<^verbatim>\<open>node.args.args\<close> and its body; every other node is a \<open>Node\<close> with its
  child nodes in field order. The subtrees of a \<^verbatim>\<open>FunctionDef\<close> other than its
  body (arguments, decorators, annotation) are expressions, which hold no
  \<^verbatim>\<open>FunctionDef\<close>, and are left out.
\<close>

datatype ast =
    FunctionDef string int "string list" "ast list"
  | Node "ast list"

fun iter_child_nodes :: "ast \<Rightarrow> ast list" where
  "iter_child_nodes (FunctionDef name lineno args body) = body"
| "iter_child_nodes (Node cs) = cs"

fun count_nodes :: "ast \<Rightarrow> nat" where
  "count_nodes (FunctionDef name lineno args body) = Suc (sum_list (map count_nodes body))"
| "count_nodes (Node cs) = Suc (sum_list (map count_nodes cs))"

lemma count_nodes_children:
  "count_nodes node = Suc (sum_list (map count_nodes (iter_child_nodes node)))"
  by (cases node) simp_all

text \<open>
  \<^verbatim>\<open>ast.walk\<close>: a queue, from which the first node is taken and to which its
  children are appended.
\<close>

function walk_queue :: "ast list \<Rightarrow> ast list" where
  "walk_queue [] = []"
| "walk_queue (node # todo) = node # walk_queue (todo @ iter_child_nodes node)"
  by pat_completeness auto
termination
  by (relation "measure (\<lambda>todo. sum_list (map count_nodes todo))")
     (simp_all add: count_nodes_children)

definition walk :: "ast \<Rightarrow> ast list" where
  "walk node = walk_queue [node]"

text \<open>
  What \<^verbatim>\<open>ast.parse(code)\<close> does: it returns the tree, raises
  \<^verbatim>\<open>SyntaxError\<close> (with \<^verbatim>\<open>e.lineno\<close> and \<^verbatim>\<open>str(e)\<close>), or raises something
  else. The parser is a parameter of the checker.
\<close>

datatype parse_result =
    Parsed ast
  | SyntaxError "int option" string
  | ParseRaises exc

definition quoted :: "string \<Rightarrow> string" where
  "quoted s = CHR 0x27 # s @ [CHR 0x27]"

text \<open>The body of the loop over the nodes: the findings one node adds.\<close>

fun check_node :: "ast \<Rightarrow> finding list" where
  "check_node (FunctionDef name lineno args body) =
     (let issues = [];
          body_lines = int (length body);
          issues = (if body_lines > 30
                    then issues @
                      [\<lparr> line = PInt lineno,
                         message = PStr (''Function '' @ quoted name @ '' is too long (''
                                     @ str_int body_lines @ '' lines). Consider refactoring.''),
                         severity = ''warning'', type = ''complexity'', rule = None \<rparr>]
                    else issues);
          arg_count = int (length args);
          issues = (if arg_count > 5
                    then issues @
                      [\<lparr> line = PInt lineno,
                         message = PStr (''Function '' @ quoted name @ '' has too many parameters (''
                                     @ str_int arg_count @ ''). Consider refactoring.''),
                         severity = ''warning'', type = ''complexity'', rule = None \<rparr>]
                    else issues)
      in issues)"
| "check_node (Node cs) = []"

fun check_nodes :: "finding list \<Rightarrow> ast list \<Rightarrow> finding list" where
  "check_nodes issues [] = issues"
| "check_nodes issues (node # nodes) = check_nodes (issues @ check_node node) nodes"

definition check_ast_patterns :: "(string \<Rightarrow> parse_result) \<Rightarrow> string \<Rightarrow> exc + finding list" where
  "check_ast_patterns parse code =
     (case parse code of
        Parsed tree \<Rightarrow> Inr (check_nodes [] (walk tree))
      | SyntaxError lineno msg \<Rightarrow>
          Inr [\<lparr> line = PInt (case lineno of None \<Rightarrow> 0 | Some n \<Rightarrow> if n = 0 then 0 else n),
                 message = PStr (''Syntax error: '' @ msg),
                 severity = ''error'', type = ''syntax'', rule = None \<rparr>]
      | ParseRaises e \<Rightarrow> Inl e)"









section \<open>CodeQualityAnalyzer: the pattern checker\<close>

text \<open>
  The syntax of the regular expressions in the rule table, as \<^verbatim>\<open>re\<close> parses them:
  a literal character, the dot, a character class (whitespace, word character), a
  negated set, the word boundary, a sequence, an alternative, a repetition (least and
  greatest count, greedy or not), a group, and a look-around (behind or ahead, negative
  or positive).
\<close>

datatype regex =
    Lit char
  | AnyChar
  | Whitespace
  | WordChar
  | NotIn string
  | WordBoundary
  | Cat "regex list"
  | Alt regex regex
  | Repeat nat "nat option" bool regex
  | Group regex
  | Look bool bool regex

definition lits :: "string \<Rightarrow> regex" where
  "lits s = Cat (map Lit s)"

text \<open>
  The least and the greatest width of a match, as \<^verbatim>\<open>getwidth\<close> computes them
  (\<open>None\<close>: no bound).
\<close>

fun opt_add :: "nat option \<Rightarrow> nat option \<Rightarrow> nat option" where
  "opt_add (Some a) (Some b) = Some (a + b)"
| "opt_add a b = None"

fun opt_max :: "nat option \<Rightarrow> nat option \<Rightarrow> nat option" where
  "opt_max (Some a) (Some b) = Some (max a b)"
| "opt_max a b = None"

fun min_width :: "regex \<Rightarrow> nat" where
  "min_width (Cat rs) = sum_list (map min_width rs)"
| "min_width (Alt r s) = min (min_width r) (min_width s)"
| "min_width (Repeat lo hi greedy r) = lo * min_width r"
| "min_width (Group r) = min_width r"
| "min_width (Look behind negative r) = 0"
| "min_width WordBoundary = 0"
| "min_width r = 1"

fun max_width :: "regex \<Rightarrow> nat option" where
  "max_width (Cat rs) = foldr opt_add (map max_width rs) (Some 0)"
| "max_width (Alt r s) = opt_max (max_width r) (max_width s)"
| "max_width (Repeat lo hi greedy r) =
     (case hi of
        None \<Rightarrow> (if max_width r = Some 0 then Some 0 else None)
      | Some h \<Rightarrow> map_option (\<lambda>m. h * m) (max_width r))"
| "max_width (Group r) = max_width r"
| "max_width (Look behind negative r) = Some 0"
| "max_width WordBoundary = Some 0"
| "max_width r = Some 1"

text \<open>
  Compiling a pattern fails when a look-behind can match texts of different widths:
  \<^verbatim>\<open>re\<close> raises \<^verbatim>\<open>error("look-behind requires fixed-width pattern")\<close>.
\<close>

fun lookbehinds_fixed :: "regex \<Rightarrow> bool" where
  "lookbehinds_fixed (Cat rs) = list_all lookbehinds_fixed rs"
| "lookbehinds_fixed (Alt r s) = (lookbehinds_fixed r \<and> lookbehinds_fixed s)"
| "lookbehinds_fixed (Repeat lo hi greedy r) = lookbehinds_fixed r"
| "lookbehinds_fixed (Group r) = lookbehinds_fixed r"
| "lookbehinds_fixed (Look behind negative r) =
     (lookbehinds_fixed r \<and> (if behind then max_width r = Some (min_width r) else True))"
| "lookbehinds_fixed r = True"

definition re_compile :: "regex \<Rightarrow> exc + regex" where
  "re_compile pattern =
     (if lookbehinds_fixed pattern then Inr pattern
      else Inl (ReError ''look-behind requires fixed-width pattern''))"

text \<open>
  \<^verbatim>\<open>re.finditer(pattern, code)\<close> compiles the pattern and then matches. Matching is
  a parameter: the matcher gives the start offsets of the matches of a compiled pattern
  in a text, in order.
\<close>

type_synonym matcher = "regex \<Rightarrow> string \<Rightarrow> nat list"

definition re_finditer :: "matcher \<Rightarrow> regex \<Rightarrow> string \<Rightarrow> exc + nat list" where
  "re_finditer matches pattern s =
     (case re_compile pattern of Inl e \<Rightarrow> Inl e | Inr compiled \<Rightarrow> Inr (matches compiled s))"

definition star :: "regex \<Rightarrow> regex" where
  "star r = Repeat 0 None True r"

definition plus :: "regex \<Rightarrow> regex" where
  "plus r = Repeat 1 None True r"

definition lazy_star :: "regex \<Rightarrow> regex" where
  "lazy_star r = Repeat 0 None False r"

text \<open>
  \<^verbatim>\<open>self.code_smells\<close>, in the order of the dictionary, each pattern as it parses.
  The nine patterns of the source are, in this order:
  \<^verbatim>\<open>import \*\<close>,
  \<^verbatim>\<open>except:(?!\s*#)\<close>,
  \<^verbatim>\<open>print\(\<close>,
  \<^verbatim>\<open>\.get\([^)]*\)(?!\s*\.)\<close>,
  \<^verbatim>\<open>os\.path\.join\(.*?\+.*?\)\<close>,
  \<^verbatim>\<open>for\s+\w+\s+in\s+range\(len\((\w+)\)\)\<close>,
  \<^verbatim>\<open>(?<!#.*)TODO|FIXME\<close>,
  \<^verbatim>\<open>\bpass\b\<close> and
  \<^verbatim>\<open>if\s+(\w+)\s*==\s*True|if\s+(\w+)\s*==\s*False\<close>.
\<close>

definition code_smells :: "(regex \<times> string) list" where
  "code_smells =
     [(Cat [lits ''import '', Lit CHR ''*''],
       ''Avoid wildcard imports as they can lead to namespace pollution''),
      (Cat [lits ''except:'', Look False True (Cat [star Whitespace, Lit CHR ''#''])],
       ''Avoid bare except clauses; catch specific exceptions''),
      (lits ''print('',
       ''Consider using logging instead of print statements in production code''),
      (Cat [lits ''.get('', star (NotIn '')''), Lit CHR '')'',
            Look False True (Cat [star Whitespace, Lit CHR ''.''])],
       ''Dictionary get() calls should provide a default value''),
      (Cat [lits ''os.path.join('', lazy_star AnyChar, Lit CHR ''+'', lazy_star AnyChar,
            Lit CHR '')''],
       ''Use os.path.join for path concatenation instead of string concatenation''),
      (Cat [lits ''for'', plus Whitespace, plus WordChar, plus Whitespace, lits ''in'',
            plus Whitespace, lits ''range(len('', Group (plus WordChar), lits ''))''],
       ''Consider using enumerate() instead of range(len())''),
      (Alt (Cat [Look True True (Cat [Lit CHR ''#'', star AnyChar]), lits ''TODO''])
           (lits ''FIXME''),
       ''Resolve TODO/FIXME comments before finalizing code''),
      (Cat [WordBoundary, lits ''pass'', WordBoundary],
       ''Empty pass statements might indicate incomplete code''),
      (Alt (Cat [lits ''if'', plus Whitespace, Group (plus WordChar), star Whitespace,
                 lits ''=='', star Whitespace, lits ''True''])
           (Cat [lits ''if'', plus Whitespace, Group (plus WordChar), star Whitespace,
                 lits ''=='', star Whitespace, lits ''False'']),
       ''Redundant comparison with boolean literals'')]"

text \<open>
  \<^verbatim>\<open>_check_local_patterns\<close>: the loop over the rule table; the line of a match is
  one more than the number of newlines before its start.
\<close>

definition line_number :: "string \<Rightarrow> nat \<Rightarrow> int" where
  "line_number code start = int (count_list (take start code) (CHR 0x0A)) + 1"

fun scan_patterns ::
  "matcher \<Rightarrow> string \<Rightarrow> finding list \<Rightarrow> (regex \<times> string) list \<Rightarrow> exc + finding list"
where
  "scan_patterns matches code issues [] = Inr issues"
| "scan_patterns matches code issues ((pattern, msg) # rest) =
     (case re_finditer matches pattern code of
        Inl e \<Rightarrow> Inl e
      | Inr starts \<Rightarrow>
          scan_patterns matches code
            (issues @ map (\<lambda>start. \<lparr> line = PInt (line_number code start),
                                     message = PStr msg,
                                     severity = ''warning'',
                                     type = ''code_smell'',
                                     rule = None \<rparr>) starts)
            rest)"

definition check_local_patterns :: "matcher \<Rightarrow> string \<Rightarrow> exc + finding list" where
  "check_local_patterns matches code = scan_patterns matches code [] code_smells"

section \<open>CodeQualityAnalyzer: the local analysis\<close>

text \<open>
  \<^verbatim>\<open>code.splitlines()\<close>: a line ends at a line feed, a carriage return (with the
  line feed after it, if any), a vertical tab, a form feed, a file, group or record
  separator, or a next-line character.
\<close>

definition is_linebreak :: "char \<Rightarrow> bool" where
  "is_linebreak c =
     (c \<in> set [CHR 0x0A, CHR 0x0D, CHR 0x0B, CHR 0x0C, CHR 0x1C, CHR 0x1D, CHR 0x1E, CHR 0x85])"

fun splitlines_from :: "string \<Rightarrow> string \<Rightarrow> string list" where
  "splitlines_from cur [] = (if cur = [] then [] else [cur])"
| "splitlines_from cur [c] = (if is_linebreak c then [cur] else [cur @ [c]])"
| "splitlines_from cur (c # d # cs) =
     (if c = CHR 0x0D \<and> d = CHR 0x0A then cur # splitlines_from [] cs
      else if is_linebreak c then cur # splitlines_from [] (d # cs)
      else splitlines_from (cur @ [c]) (d # cs))"

definition splitlines :: "string \<Rightarrow> string list" where
  "splitlines s = splitlines_from [] s"

definition endswith :: "string \<Rightarrow> string \<Rightarrow> bool" where
  "endswith s suffix = (length suffix \<le> length s \<and> drop (length s - length suffix) s = suffix)"

text \<open>\<^verbatim>\<open>CodeQualityAnalyzer._generate_summary(issues, loc, complexity)\<close>\<close>

definition local_generate_summary :: "'f float_ops \<Rightarrow> finding list \<Rightarrow> int \<Rightarrow> int \<Rightarrow> string" where
  "local_generate_summary F issues loc complexity_score =
     (if issues = [] then ''No issues detected. Code appears to follow good practices.''
      else
        let issue_count = int (length issues);
            issue_density = percentage F issue_count (max 1 loc);
            quality = (if less_than F issue_density 2 then ''good''
                       else if less_than F issue_density 5 then ''acceptable''
                       else ''needs improvement'')
        in ''Found '' @ str_int issue_count @ '' issues in '' @ str_int loc
             @ '' lines of code. Overall quality is '' @ quality @ ''.'')"

record local_metrics =
  local_lines_of_code :: int
  complexity_score :: int
  issue_count :: int

text \<open>
  \<^verbatim>\<open>CodeQualityAnalyzer.analyze_code\<close>. It has no handler: what the checkers raise
  reaches the caller. \<^verbatim>\<open>int(len(issues) / 5)\<close> is the quotient rounded down.
\<close>

definition analyze_code ::
  "'f float_ops \<Rightarrow> matcher \<Rightarrow> (string \<Rightarrow> parse_result) \<Rightarrow> string \<Rightarrow> string
     \<Rightarrow> exc + local_metrics analysis_result"
where
  "analyze_code F matches parse code filename =
     (let is_python = endswith filename ''.py'' in
      case check_local_patterns matches code of Inl e \<Rightarrow> Inl e | Inr issues \<Rightarrow>
     (case (if is_python
            then (case check_ast_patterns parse code of
                    Inl e \<Rightarrow> Inl e
                  | Inr found \<Rightarrow> Inr (issues @ found))
            else Inr issues) of Inl e \<Rightarrow> Inl e | Inr issues \<Rightarrow>
     (let loc = int (length (splitlines code));
          complexity_score = min 10 (max 1 (int (length issues) div 5 + 1))
      in Inr (Success issues
                \<lparr> local_lines_of_code = loc, complexity_score = complexity_score,
                  issue_count = int (length issues) \<rparr>
                (local_generate_summary F issues loc complexity_score)))))"

section \<open>CodeQualityAnalyzer: the generative review and the facade\<close>

text \<open>
  The analyzer object: the API key of the generative service and the remote analyzer
  (\<^verbatim>\<open>SonarCloudAnalyzer(token, org) if sonarcloud_token else None\<close>).
\<close>

record analyzer =
  gemini_api_key :: "string option"
  sonarcloud :: "sonar option"

definition analyzer_init :: "string option \<Rightarrow> string option \<Rightarrow> string option \<Rightarrow> analyzer" where
  "analyzer_init api_key sonarcloud_token sonarcloud_org =
     \<lparr> gemini_api_key = api_key,
       sonarcloud = (case sonarcloud_token of
                       None \<Rightarrow> None
                     | Some tok \<Rightarrow> if tok = [] then None
                                   else Some (sonar_init tok sonarcloud_org)) \<rparr>"

text \<open>\<^verbatim>\<open>not x\<close> for an optional string: \<^verbatim>\<open>None\<close> and the empty string are false.\<close>

fun falsy :: "string option \<Rightarrow> bool" where
  "falsy None = True"
| "falsy (Some s) = (s = [])"

text \<open>
  The answer of the generative service: the status, the text, and what
  \<^verbatim>\<open>response.json()['candidates'][0]['content']['parts'][0]['text']\<close> gives (the
  decoding or a subscript may raise). The world of the generative review: the endpoint
  from the environment, the transport (called with the URL and the prompt), the search
  for the JSON text in the model's output, and \<^verbatim>\<open>json.loads\<close>.
\<close>

record ai_response =
  ai_status_code :: int
  ai_text :: string
  candidate_text :: "exc + string"

record 'j ai_world =
  gemini_api_url :: "string option"
  post :: "string \<Rightarrow> string \<Rightarrow> exc + ai_response"
  search_json :: "string \<Rightarrow> string option"
  json_loads :: "string \<Rightarrow> 'j option"

datatype 'j ai_result =
    AiError string "string option"
  | AiJson 'j
  | AiFallback string "finding list" "string list" string

definition dq :: "string \<Rightarrow> string" where
  "dq s = CHR 0x22 # s @ [CHR 0x22]"

definition prompt_lines :: "string \<Rightarrow> string \<Rightarrow> string list" where
  "prompt_lines language code =
     [''Analyze the following '' @ language @ '' code for quality issues:'',
      ''        '',
      ''        ```'' @ language,
      ''        '' @ code,
      ''        ```'',
      ''        '',
      ''        Provide a JSON response with the following structure:'',
      ''        {'',
      ''            '' @ dq ''issues'' @ '': ['',
      ''                {'',
      ''                    '' @ dq ''line'' @ '': <line_number>,'',
      ''                    '' @ dq ''message'' @ '': '' @ dq ''<description of the issue>'' @ '','',
      ''                    '' @ dq ''severity'' @ '': '' @ dq ''<info|warning|error>'' @ '','',
      ''                    '' @ dq ''type'' @ '': ''
          @ dq ''<code_smell|security|performance|style|bug>'',
      ''                }'',
      ''            ],'',
      ''            '' @ dq ''suggestions'' @ '': ['',
      ''                '' @ dq ''<suggestion for improvement>'',
      ''            ],'',
      ''            '' @ dq ''summary'' @ '': '' @ dq ''<brief summary of code quality>'',
      ''        }'',
      ''        '',
      ''        Focus on:'',
      ''        - Code smells'',
      ''        - Security issues'',
      ''        - Performance optimizations'',
      ''        - Best practices'',
      ''        - Deprecated API usage'',
      ''        '']"

definition fallback :: "string \<Rightarrow> 'j ai_result" where
  "fallback result_text =
     AiFallback result_text [] [''Unable to parse AI response as JSON'']
       ''AI analysis completed but results could not be structured properly.''"

text \<open>
  \<^verbatim>\<open>analyze_with_ai\<close>. The second component lists the calls of the transport, each
  with its URL and prompt.
\<close>

definition analyze_with_ai ::
  "'j ai_world \<Rightarrow> analyzer \<Rightarrow> string \<Rightarrow> string \<Rightarrow> 'j ai_result \<times> (string \<times> string) list"
where
  "analyze_with_ai w self code filename =
     (if falsy (gemini_api_key self)
      then (AiError ''API key is required for AI-powered analysis'' None, [])
      else
        let extension = (if filename \<noteq> [] then lstrip_dots (splitext_ext filename) else []);
            language = (if extension \<noteq> [] then extension else ''unknown'');
            prompt = join [CHR 0x0A] (prompt_lines language code);
            url = (case gemini_api_url w of None \<Rightarrow> ''None'' | Some u \<Rightarrow> u);
            target = url @ ''?key='' @ (case gemini_api_key self of None \<Rightarrow> [] | Some k \<Rightarrow> k)
        in (case post w target prompt of
              Inl e \<Rightarrow> AiError ''Failed to analyze with AI'' (Some (str_exc e))
            | Inr response \<Rightarrow>
                if ai_status_code response = 200
                then (case candidate_text response of
                        Inl e \<Rightarrow> AiError ''Failed to analyze with AI'' (Some (str_exc e))
                      | Inr result_text \<Rightarrow>
                          (case search_json w result_text of
                             None \<Rightarrow> fallback result_text
                           | Some json_str \<Rightarrow>
                               (case json_loads w json_str of
                                  None \<Rightarrow> fallback result_text
                                | Some parsed \<Rightarrow> AiJson parsed)))
                else AiError (''API error: '' @ str_int (ai_status_code response))
                       (Some (ai_text response)),
            [(target, prompt)]))"

text \<open>\<^verbatim>\<open>analyze_with_sonarcloud\<close>\<close>

definition analyze_with_sonarcloud ::
  "'f float_ops \<Rightarrow> world \<Rightarrow> analyzer \<Rightarrow> string \<Rightarrow> string
     \<Rightarrow> 'f sonar_metrics analysis_result \<times> request list"
where
  "analyze_with_sonarcloud F w self code filename =
     (case sonarcloud self of
        None \<Rightarrow> (Error ''SonarCloud token is required for SonarCloud analysis'' None, [])
      | Some s \<Rightarrow> sonar_analyze_code F w s code filename)"

text \<open>
  An example source whose third line holds a wildcard import and that no other pattern
  of the rule table matches.
\<close>

definition wildcard_source :: string where
  "wildcard_source = join [CHR 0x0A] [''x = 1'', ''y = 2'', ''from os import *'']"

text \<open>An example world for the generative review: the endpoint cannot be reached.\<close>

definition example_ai_world :: "string ai_world" where
  "example_ai_world =
     \<lparr> gemini_api_url = Some ''https://example.invalid/generate'',
       post = (\<lambda>url prompt. Inl (TransportError ''connection refused'')),
       search_json = (\<lambda>result_text. None),
       json_loads = (\<lambda>json_str. None) \<rparr>"

text \<open>
  The matches of the patterns of the rule table in that source: the first pattern matches
  once, at offset 20 (the word \<open>import\<close> on the third line), and no other pattern
  matches.
\<close>

definition wildcard_matcher :: matcher where
  "wildcard_matcher pattern s =
     (if pattern = Cat [lits ''import '', Lit CHR ''*''] \<and> s = wildcard_source then [20] else [])"

text \<open>\<open>unreachable\<close> makes the transport raise on the selected endpoints.\<close>

definition unreachable ::
  "(request \<Rightarrow> bool) \<Rightarrow> (request \<Rightarrow> exc + response) \<Rightarrow> request \<Rightarrow> exc + response"
where
  "unreachable broken service rq =
     (if broken rq then Inl (TransportError ''connection reset'') else service rq)"

fun is_projects_delete :: "request \<Rightarrow> bool" where
  "is_projects_delete (ProjectsDelete k) = True"
| "is_projects_delete rq = False"

section \<open>Properties of the remote summary\<close>

lemma str_int_1: "str_int 1 = ''1''"
  by code_simp

text \<open>
  C8. The remote summary is \<open>No code detected for analysis.\<close> whenever the
  lines-of-code metric is 0, whatever the other metrics hold (they are not even read).
  Otherwise the collected phrases start with the bug phrase when \<open>bugs > 0\<close>
  (\<open>1 potential bug\<close> for one, \<open>n potential bugs\<close> for more), then the security
  phrase when \<open>vulnerabilities > 0\<close>, both of whose nouns agree in number
  (\<open>1 security issue\<close> for one, \<open>n securities issues\<close> for more), then the phrases
  of the code smells and of the duplication; the summary is built from that list.
\<close>

theorem generate_summary_phrases:
  "(py_int (dict_get metrics ''ncloc'' (PInt 0)) = Inr 0 \<longrightarrow>
      generate_summary F issues metrics = Inr ''No code detected for analysis.'')
   \<and> quality_issues F b v c d =
       (if b = 1 then [''1 potential bug'']
        else if b > 1 then [str_int b @ '' potential bugs''] else [])
       @ (if v = 1 then [''1 security issue'']
          else if v > 1 then [str_int v @ '' securities issues'']
          else [])
       @ quality_issues F 0 0 c d
   \<and> (py_int (dict_get metrics ''ncloc'' (PInt 0)) = Inr loc \<and> loc \<noteq> 0
      \<and> py_int (dict_get metrics ''bugs'' (PInt 0)) = Inr b
      \<and> py_int (dict_get metrics ''vulnerabilities'' (PInt 0)) = Inr v
      \<and> py_int (dict_get metrics ''code_smells'' (PInt 0)) = Inr c
      \<and> py_float F (dict_get metrics ''duplicated_lines_density'' (PInt 0)) = Inr d
      \<longrightarrow> generate_summary F issues metrics =
          Inr (if quality_issues F b v c d = []
               then ''No significant issues found in '' @ str_int loc @ '' lines of code. Good job!''
               else ''Found '' @ join '', '' (quality_issues F b v c d)
                    @ '' in '' @ str_int loc @ '' lines of code.''))"
proof (intro conjI impI)
  assume "py_int (dict_get metrics ''ncloc'' (PInt 0)) = Inr 0"
  then show "generate_summary F issues metrics = Inr ''No code detected for analysis.''"
    by (simp add: generate_summary_def)
next
  show "quality_issues F b v c d =
       (if b = 1 then [''1 potential bug'']
        else if b > 1 then [str_int b @ '' potential bugs''] else [])
       @ (if v = 1 then [''1 security issue'']
          else if v > 1 then [str_int v @ '' securities issues'']
          else [])
       @ quality_issues F 0 0 c d"
    by (simp add: quality_issues_def bugs_phrase_def vulnerabilities_phrase_def str_int_1 Let_def)
next
  assume "py_int (dict_get metrics ''ncloc'' (PInt 0)) = Inr loc \<and> loc \<noteq> 0
      \<and> py_int (dict_get metrics ''bugs'' (PInt 0)) = Inr b
      \<and> py_int (dict_get metrics ''vulnerabilities'' (PInt 0)) = Inr v
      \<and> py_int (dict_get metrics ''code_smells'' (PInt 0)) = Inr c
      \<and> py_float F (dict_get metrics ''duplicated_lines_density'' (PInt 0)) = Inr d"
  then show "generate_summary F issues metrics =
          Inr (if quality_issues F b v c d = []
               then ''No significant issues found in '' @ str_int loc @ '' lines of code. Good job!''
               else ''Found '' @ join '', '' (quality_issues F b v c d)
                    @ '' in '' @ str_int loc @ '' lines of code.'')"
    by (simp add: generate_summary_def Let_def)
qed

theorem generate_summary_phrases_witness:
  "generate_summary decimal_float_ops ([] :: finding list)
      [''ncloc'' \<mapsto> PStr ''0'', ''bugs'' \<mapsto> PStr ''many''] = Inr ''No code detected for analysis.''
   \<and> generate_summary decimal_float_ops ([] :: finding list)
      [''ncloc'' \<mapsto> PStr ''120'', ''bugs'' \<mapsto> PStr ''1'', ''vulnerabilities'' \<mapsto> PStr ''2'']
      = Inr ''Found 1 potential bug, 2 securities issues in 120 lines of code.''"
proof -
  let ?m0 = "[''ncloc'' \<mapsto> PStr ''0'', ''bugs'' \<mapsto> PStr ''many'']"
  let ?m1 = "[''ncloc'' \<mapsto> PStr ''120'', ''bugs'' \<mapsto> PStr ''1'', ''vulnerabilities'' \<mapsto> PStr ''2'']"
  have h0: "py_int (dict_get ?m0 ''ncloc'' (PInt 0)) = Inr 0"
    by code_simp
  have h1: "py_int (dict_get ?m1 ''ncloc'' (PInt 0)) = Inr 120 \<and> (120 :: int) \<noteq> 0
      \<and> py_int (dict_get ?m1 ''bugs'' (PInt 0)) = Inr 1
      \<and> py_int (dict_get ?m1 ''vulnerabilities'' (PInt 0)) = Inr 2
      \<and> py_int (dict_get ?m1 ''code_smells'' (PInt 0)) = Inr 0
      \<and> py_float decimal_float_ops (dict_get ?m1 ''duplicated_lines_density'' (PInt 0)) = Inr 0"
    by code_simp
  have q: "quality_issues decimal_float_ops 0 0 0 0 = []"
    by code_simp
  have s: "str_int 2 = ''2''" "str_int 120 = ''120''"
    by code_simp+
  from generate_summary_phrases [of ?m0 decimal_float_ops "[] :: finding list" 1 2 0 0 0] h0
  have a: "generate_summary decimal_float_ops ([] :: finding list) ?m0
             = Inr ''No code detected for analysis.''"
    by blast
  note t = generate_summary_phrases [of ?m1 decimal_float_ops "[] :: finding list" 1 2 0 0 120]
  from t have "quality_issues decimal_float_ops 1 2 0 0 = [''1 potential bug'', ''2 securities issues'']"
    by (simp add: q s)
  moreover from t h1
  have "generate_summary decimal_float_ops ([] :: finding list) ?m1 =
          Inr (if quality_issues decimal_float_ops 1 2 0 0 = []
               then ''No significant issues found in '' @ str_int 120 @ '' lines of code. Good job!''
               else ''Found '' @ join '', '' (quality_issues decimal_float_ops 1 2 0 0)
                    @ '' in '' @ str_int 120 @ '' lines of code.'')"
    by blast
  ultimately have "generate_summary decimal_float_ops ([] :: finding list) ?m1
      = Inr ''Found 1 potential bug, 2 securities issues in 120 lines of code.''"
    by (simp add: s)
  with a show ?thesis by simp
qed

section \<open>Properties of the normalisation\<close>










section \<open>Properties of the remote call\<close>

lemma create_project_run:
  "accepted w (create_request w self) [200, 201] \<Longrightarrow>
     create_project w self (fresh_project_key w) t = (Inr (), t @ [create_request w self])"
  by (auto simp: accepted_def create_project_def create_request_def bind_io_def http_def
        return_io_def raise_io_def split: sum.splits)

lemma run_scanner_run:
  "accepted w (index_request w self code filename) [200, 201] \<Longrightarrow>
   accepted w (submit_request w self) [200, 201, 202] \<Longrightarrow>
     run_scanner w self code (fresh_project_key w) filename t
       = (Inr (), t @ [index_request w self code filename, submit_request w self])"
  by (auto simp: accepted_def run_scanner_def index_request_def submit_request_def bind_io_def
        http_def return_io_def raise_io_def language_of_def Let_def split: sum.splits)

lemma sonar_try_body_submitted:
  assumes "submitted w self code filename"
  shows "sonar_try_body F w self code filename [] =
     fetch_results F w self
       [create_request w self, index_request w self code filename, submit_request w self]"
  using assms
  by (simp add: sonar_try_body_def submitted_def fetch_results_def Let_def
       create_project_run run_scanner_run lift_io_def bind_io_def)


lemma get_issues_ok:
  "send w (issues_request w) = Inr r \<Longrightarrow> status_code r = 200 \<Longrightarrow> json r = Inr doc \<Longrightarrow>
     get_issues w self (fresh_project_key w) t = (Inr (issues_in doc), t @ [issues_request w])"
  by (simp add: get_issues_def issues_request_def issues_in_def bind_io_def http_def return_io_def)

lemma get_security_hotspots_run:
  "send w (hotspots_request w) = Inr r \<Longrightarrow> fetched_hotspots r hs \<Longrightarrow>
     get_security_hotspots w self (fresh_project_key w) t = (Inr hs, t @ [hotspots_request w])"
  by (auto simp: get_security_hotspots_def hotspots_request_def fetched_hotspots_def bind_io_def
        http_def return_io_def split: sum.splits if_splits)

lemma get_metrics_run:
  "send w (metrics_request w) = Inr r \<Longrightarrow> fetched_metrics r ms \<Longrightarrow>
     get_metrics w self (fresh_project_key w) t = (Inr ms, t @ [metrics_request w])"
  by (auto simp: get_metrics_def metrics_request_def fetched_metrics_def bind_io_def
        http_def return_io_def lift_io_def split: sum.splits if_splits)






















text \<open>
  C3. A call in which the project is created and the submission of the source is then
  refused (status 500) returns the error result after two requests, the creation and
  the submission: no request to delete the project is sent, so the project stays on
  the service.
\<close>

theorem scanner_failure_leaves_project:
  "sonar_analyze_code decimal_float_ops
     (example_world (failing is_source_index (paged_service [] []))) example_self ''x = 1'' ''a.py''
   = (Error ''SonarCloud analysis failed'' (Some ''Failed to run analysis: internal error''),
      [ProjectsCreate ''temp-analysis-01234567'' ''temp-analysis-01234567''
         ''default-organization'' ''private'',
       SourceIndex ''default-organization'' ''temp-analysis-01234567'' ''a.py'' ''python''
         ''x = 1''])"
  by code_simp

section \<open>Properties of the structural checker\<close>












section \<open>Properties of the local analysis and of the generative review\<close>

lemma todo_pattern_rejected:
  "re_compile (Alt (Cat [Look True True (Cat [Lit CHR ''#'', star AnyChar]), lits ''TODO''])
                   (lits ''FIXME''))
     = Inl (ReError ''look-behind requires fixed-width pattern'')"
  by (simp add: re_compile_def star_def)

lemma check_local_patterns_raises:
  "check_local_patterns matches code = Inl (ReError ''look-behind requires fixed-width pattern'')"
  by (simp add: check_local_patterns_def code_smells_def re_finditer_def re_compile_def
        lits_def star_def plus_def lazy_star_def)

text \<open>
  C1. The local analysis never returns a result: for every source text and every file
  name, whatever the matcher and the parser do, \<open>analyze_code\<close> raises the error
  of the regular-expression compiler, because the seventh pattern of the rule table has a
  look-behind of variable width.
\<close>

theorem analyze_code_raises:
  "analyze_code F matches parse code filename
     = Inl (ReError ''look-behind requires fixed-width pattern'')"
  by (simp add: analyze_code_def check_local_patterns_raises)

text \<open>
  C2. On a source whose third line holds the only wildcard import, the first six patterns
  of the rule table give exactly one finding (line 3, severity \<open>warning\<close>, type
  \<open>code_smell\<close>, no rule), but the pattern checker returns no finding: it raises
  the error of the regular-expression compiler when it reaches the seventh pattern of the
  rule table, and the finding of the first pattern is lost with it.
\<close>

theorem wildcard_import_raises:
  "scan_patterns wildcard_matcher wildcard_source [] (take 6 code_smells)
     = Inr [\<lparr> line = PInt 3,
              message = PStr ''Avoid wildcard imports as they can lead to namespace pollution'',
              severity = ''warning'', type = ''code_smell'', rule = None \<rparr>]
   \<and> check_local_patterns wildcard_matcher wildcard_source
     = Inl (ReError ''look-behind requires fixed-width pattern'')"
  by code_simp

text \<open>
  C9. When no API key is configured (\<open>None\<close> or the empty string), the generative
  review returns the error object with the text
  \<open>API key is required for AI-powered analysis\<close> and has called the transport zero
  times.
\<close>

theorem analyze_with_ai_without_key:
  assumes "falsy (gemini_api_key self)"
  shows "analyze_with_ai w self code filename
           = (AiError ''API key is required for AI-powered analysis'' None, [])"
  using assms by (simp add: analyze_with_ai_def)

theorem analyze_with_ai_without_key_witness:
  "falsy (gemini_api_key (analyzer_init None None None))
   \<and> analyze_with_ai example_ai_world (analyzer_init None None None) ''x = 1'' ''a.py''
           = (AiError ''API key is required for AI-powered analysis'' None, [])"
proof -
  have h: "falsy (gemini_api_key (analyzer_init None None None))"
    by (simp add: analyzer_init_def)
  from analyze_with_ai_without_key [OF h, of example_ai_world "''x = 1''" "''a.py''"] h
  show ?thesis by simp
qed

section \<open>Further properties of the remote call\<close>

text \<open>
  Beyond the claims: a hotspots fetch on which the transport itself raises is not
  tolerated. With the source submitted and the issues fetched, the call returns the
  error result with the transport's text, after the hotspots request and without a
  request to delete the project.
\<close>

theorem hotspots_transport_failure:
  assumes "submitted w self code filename"
    and "send w (issues_request w) = Inr ri" and "status_code ri = 200" and "json ri = Inr di"
    and "send w (hotspots_request w) = Inl e"
  shows "sonar_analyze_code F w self code filename
     = (Error ''SonarCloud analysis failed'' (Some (str_exc e)),
        [create_request w self, index_request w self code filename, submit_request w self,
         issues_request w, hotspots_request w])"
  using assms(2-)
  by (simp add: sonar_analyze_code_def sonar_try_body_submitted [OF assms(1)] fetch_results_def
        bind_io_def get_issues_ok [where doc = di] get_security_hotspots_def http_def
        hotspots_request_def)

theorem hotspots_transport_failure_witness:
  "sonar_analyze_code decimal_float_ops
     (example_world (unreachable is_hotspots_search (paged_service [example_issue] [])))
     example_self ''x = 1'' ''a.py''
   = (Error ''SonarCloud analysis failed'' (Some ''connection reset''),
      [ProjectsCreate ''temp-analysis-01234567'' ''temp-analysis-01234567''
         ''default-organization'' ''private'',
       SourceIndex ''default-organization'' ''temp-analysis-01234567'' ''a.py'' ''python''
         ''x = 1'',
       AnalysisSubmit ''temp-analysis-01234567'' ''default-organization'',
       IssuesSearch ''temp-analysis-01234567'' 100,
       HotspotsSearch ''temp-analysis-01234567'' 100])"
proof -
  let ?w = "example_world (unreachable is_hotspots_search (paged_service [example_issue] []))"
  have key: "fresh_project_key ?w = ''temp-analysis-01234567''"
    by (simp add: fresh_project_key_def example_world_def)
  have lang: "language_of ''a.py'' = ''python''"
    by code_simp
  have org: "organization example_self = ''default-organization''"
    by (simp add: example_self_def sonar_init_def)
  have b64: "b64encode ?w content = content" for content
    by (simp add: example_world_def)
  have h: "submitted ?w example_self ''x = 1'' ''a.py''"
    by (simp add: submitted_def accepted_def example_world_def unreachable_def create_request_def
          index_request_def submit_request_def json_answer_def)
  have i: "send ?w (issues_request ?w)
             = Inr (json_answer (empty_document \<lparr> doc_issues := Some [example_issue] \<rparr>))"
    "status_code (json_answer (empty_document \<lparr> doc_issues := Some [example_issue] \<rparr>)) = 200"
    "json (json_answer (empty_document \<lparr> doc_issues := Some [example_issue] \<rparr>))
       = Inr (empty_document \<lparr> doc_issues := Some [example_issue] \<rparr>)"
    "send ?w (hotspots_request ?w) = Inl (TransportError ''connection reset'')"
    by (simp_all add: example_world_def unreachable_def issues_request_def hotspots_request_def
          json_answer_def)
  from hotspots_transport_failure [OF h i, of decimal_float_ops]
  show ?thesis
    by (simp add: create_request_def index_request_def submit_request_def issues_request_def
          hotspots_request_def key lang org b64)
qed

text \<open>
  Beyond the claims: a request to delete the project on which the transport raises is
  not swallowed. With everything fetched, the call returns the error result with the
  transport's text, and what was fetched is lost.
\<close>

theorem delete_transport_failure:
  assumes "submitted w self code filename"
    and "send w (issues_request w) = Inr ri" and "status_code ri = 200" and "json ri = Inr di"
    and "send w (hotspots_request w) = Inr rh" and "fetched_hotspots rh hs"
    and "send w (metrics_request w) = Inr rm" and "fetched_metrics rm ms"
    and "send w (delete_request w) = Inl e"
  shows "fst (sonar_analyze_code F w self code filename)
     = Error ''SonarCloud analysis failed'' (Some (str_exc e))"
  using assms(2-)
  by (simp add: sonar_analyze_code_def sonar_try_body_submitted [OF assms(1)] fetch_results_def
        bind_io_def get_issues_ok [where doc = di] get_security_hotspots_run [where hs = hs]
        get_metrics_run [where ms = ms] delete_project_def http_def delete_request_def)

theorem delete_transport_failure_witness:
  "fst (sonar_analyze_code decimal_float_ops
     (example_world (unreachable is_projects_delete (paged_service [example_issue] [])))
     example_self ''x = 1'' ''a.py'')
   = Error ''SonarCloud analysis failed'' (Some ''connection reset'')"
proof -
  let ?w = "example_world (unreachable is_projects_delete (paged_service [example_issue] []))"
  have h: "submitted ?w example_self ''x = 1'' ''a.py''"
    by (simp add: submitted_def accepted_def example_world_def unreachable_def create_request_def
          index_request_def submit_request_def json_answer_def)
  have i: "send ?w (issues_request ?w)
             = Inr (json_answer (empty_document \<lparr> doc_issues := Some [example_issue] \<rparr>))"
    "status_code (json_answer (empty_document \<lparr> doc_issues := Some [example_issue] \<rparr>)) = 200"
    "json (json_answer (empty_document \<lparr> doc_issues := Some [example_issue] \<rparr>))
       = Inr (empty_document \<lparr> doc_issues := Some [example_issue] \<rparr>)"
    "send ?w (hotspots_request ?w)
             = Inr (json_answer (empty_document \<lparr> doc_hotspots := Some [] \<rparr>))"
    "fetched_hotspots (json_answer (empty_document \<lparr> doc_hotspots := Some [] \<rparr>)) []"
    "send ?w (metrics_request ?w) = Inr (json_answer empty_document)"
    "fetched_metrics (json_answer empty_document) Map.empty"
    "send ?w (delete_request ?w) = Inl (TransportError ''connection reset'')"
    by (simp_all add: example_world_def unreachable_def issues_request_def hotspots_request_def
          metrics_request_def delete_request_def json_answer_def fetched_hotspots_def
          fetched_metrics_def empty_document_def)
  from delete_transport_failure [OF h i, of decimal_float_ops]
  show ?thesis by simp
qed

end
